theory Spec2Isabelle
  imports Main "HOL-Library.Log_Nat"
begin

section \<open>Python values used by the dashboard backend\<close>

text \<open>
  The backend (\<^verbatim>\<open>backend/app.py\<close>) is a Flask application with seven routes. Each
  proxy handler reads query parameters, performs one \<^verbatim>\<open>requests.get\<close>, parses the
  answer as JSON and re-serialises a few fields with \<^verbatim>\<open>jsonify\<close>. The embedding
  follows CPython 3.11: a value obtained from \<^verbatim>\<open>response.json()\<close> is a \<open>jvalue\<close>
  term, a Python \<^verbatim>\<open>float\<close> is a binary64 number, and every exception that a
  primitive can raise is a value \<open>Inl e\<close> of a sum type.

  A Python \<^verbatim>\<open>str\<close> is modelled by \<open>string\<close>, one \<open>char\<close> per code point, so the
  model covers the strings whose code points are below 256.
\<close>

subsection \<open>Floats\<close>

text \<open>
  \<open>Finite s a\<close> is the double \<open>(-1)\<^sup>s \<cdot> a\<close> with magnitude \<open>a \<ge> 0\<close> (so \<open>Finite True 0\<close> is
  \<^verbatim>\<open>-0.0\<close>), \<open>Inf s\<close> is the signed infinity and \<open>NaN\<close> stands for every NaN.
\<close>

datatype pyfloat = Finite bool rat | Inf bool | NaN

text \<open>\<open>ilog2 a\<close> is \<open>\<lfloor>log\<^sub>2 a\<rfloor>\<close> for a positive rational \<open>a\<close>.\<close>

definition ilog2 :: "rat \<Rightarrow> int" where
  "ilog2 a =
     (let d = bitlen (fst (quotient_of a)) - bitlen (snd (quotient_of a))
      in if 2 powi d \<le> a then d else d - 1)"

definition round_half_even :: "rat \<Rightarrow> int" where
  "round_half_even x =
     (let n = \<lfloor>x\<rfloor>; r = x - of_int n
      in if r < 1 / 2 then n
         else if 1 / 2 < r then n + 1
         else if even n then n else n + 1)"

text \<open>
  Rounding of an exact magnitude to the nearest binary64 magnitude, ties to even:
  53 significant bits, least exponent \<open>-1022\<close> (below it the spacing stays
  \<open>2\<^sup>-\<^sup>1\<^sup>0\<^sup>7\<^sup>4\<close>), and \<open>None\<close> when the rounded value reaches \<open>2\<^sup>1\<^sup>0\<^sup>2\<^sup>4\<close>.
\<close>

definition rne :: "rat \<Rightarrow> rat option" where
  "rne a =
     (if a = 0 then Some 0
      else let u = 2 powi (max (ilog2 a) (- 1022) - 52);
               y = of_int (round_half_even (a / u)) * u
           in if 2 ^ 1024 \<le> y then None else Some y)"

text \<open>The result of a C double operation whose exact value has sign \<open>s\<close> and magnitude \<open>a\<close>.\<close>

definition fround :: "bool \<Rightarrow> rat \<Rightarrow> pyfloat" where
  "fround s a = (case rne a of None \<Rightarrow> Inf s | Some y \<Rightarrow> Finite s y)"

text \<open>\<^verbatim>\<open>x * y\<close> on two floats.\<close>

fun fmul :: "pyfloat \<Rightarrow> pyfloat \<Rightarrow> pyfloat" where
  "fmul NaN y = NaN"
| "fmul x NaN = NaN"
| "fmul (Inf s) (Inf t) = Inf (s \<noteq> t)"
| "fmul (Inf s) (Finite t b) = (if b = 0 then NaN else Inf (s \<noteq> t))"
| "fmul (Finite s a) (Inf t) = (if a = 0 then NaN else Inf (s \<noteq> t))"
| "fmul (Finite s a) (Finite t b) = fround (s \<noteq> t) (a * b)"

text \<open>
  \<^verbatim>\<open>round(x, 2)\<close> on a float: NaN and the infinities round to themselves; a finite
  \<open>x\<close> is written with two decimals, correctly rounded with ties to even on its exact
  value, and the decimal string is read back as a double. The sign is kept.
\<close>

fun py_round2 :: "pyfloat \<Rightarrow> pyfloat" where
  "py_round2 (Finite s a) = fround s (of_int (round_half_even (a * 100)) / 100)"
| "py_round2 x = x"

text \<open>\<^verbatim>\<open>bool(x)\<close> of a float: only the two zeros are false.\<close>

fun float_truthy :: "pyfloat \<Rightarrow> bool" where
  "float_truthy (Finite s a) = (a \<noteq> 0)"
| "float_truthy x = True"

text \<open>
  Conversion of a Python \<^verbatim>\<open>int\<close> to a double, as float arithmetic does with an int
  operand: correctly rounded, and \<^verbatim>\<open>OverflowError\<close> when the result is out of range.
\<close>

datatype exn = Exn (exn_class: string) (exn_str: string)

definition float_of_int :: "int \<Rightarrow> exn + pyfloat" where
  "float_of_int n =
     (case rne (of_int \<bar>n\<bar>) of
        None \<Rightarrow> Inl (Exn ''OverflowError'' ''int too large to convert to float'')
      | Some y \<Rightarrow> Inr (Finite (n < 0) y))"

subsection \<open>Strings: \<^verbatim>\<open>repr\<close> and \<^verbatim>\<open>float(str)\<close>\<close>

definition quoted :: "string \<Rightarrow> string" where
  "quoted s = CHR 0x27 # s @ [CHR 0x27]"

definition hex_digit :: "nat \<Rightarrow> char" where
  "hex_digit n = ''0123456789abcdef'' ! n"

definition repr_char :: "char \<Rightarrow> char \<Rightarrow> string" where
  "repr_char q c =
     (let n = (of_char c :: nat) in
      if c = q \<or> c = CHR 0x5C then [CHR 0x5C, c]
      else if n = 9 then [CHR 0x5C, CHR ''t'']
      else if n = 10 then [CHR 0x5C, CHR ''n'']
      else if n = 13 then [CHR 0x5C, CHR ''r'']
      else if n < 32 \<or> n = 127 \<or> (128 \<le> n \<and> n \<le> 160) \<or> n = 173
        then [CHR 0x5C, CHR ''x'', hex_digit (n div 16), hex_digit (n mod 16)]
      else [c])"

text \<open>
  \<^verbatim>\<open>repr(s)\<close> of a str: single quotes unless the string has a single and no double
  quote; the quote character, the backslash and the non-printable code points are
  escaped.
\<close>

definition py_repr :: "string \<Rightarrow> string" where
  "py_repr s =
     (let q = (if CHR 0x27 \<in> set s \<and> CHR 0x22 \<notin> set s then CHR 0x22 else CHR 0x27)
      in q # concat (map (repr_char q) s) @ [q])"

definition is_digit :: "char \<Rightarrow> bool" where
  "is_digit c = (48 \<le> (of_char c :: nat) \<and> (of_char c :: nat) \<le> 57)"

definition digits_val :: "string \<Rightarrow> nat" where
  "digits_val ds = foldl (\<lambda>n c. 10 * n + ((of_char c :: nat) - 48)) 0 ds"

text \<open>
  The white space that \<^verbatim>\<open>float\<close> strips: the ASCII white space of C, and the two
  non-ASCII white space code points below 256, which the conversion first turns into
  blanks.
\<close>

definition is_space :: "char \<Rightarrow> bool" where
  "is_space c = ((of_char c :: nat) \<in> {9, 10, 11, 12, 13, 32, 133, 160})"

definition to_lower :: "char \<Rightarrow> char" where
  "to_lower c =
     (let n = (of_char c :: nat) in if 65 \<le> n \<and> n \<le> 90 then char_of (n + 32) else c)"

text \<open>
  Underscores in a numeric literal: allowed only between two digits. The first argument
  is the previous character of the scan, initially NUL.
\<close>

fun drop_underscores :: "char \<Rightarrow> string \<Rightarrow> string option" where
  "drop_underscores prev [] = (if prev = CHR ''_'' then None else Some [])"
| "drop_underscores prev (c # cs) =
     (if c = CHR 0x00 then None
      else if c = CHR ''_'' then (if is_digit prev then drop_underscores c cs else None)
      else if prev = CHR ''_'' \<and> \<not> is_digit c then None
      else map_option ((#) c) (drop_underscores c cs))"

definition strip_ws :: "string \<Rightarrow> string" where
  "strip_ws s = rev (dropWhile is_space (rev (dropWhile is_space s)))"

definition split_sign :: "string \<Rightarrow> bool \<times> string" where
  "split_sign s =
     (case s of
        [] \<Rightarrow> (False, [])
      | c # t \<Rightarrow> if c = CHR ''-'' then (True, t) else if c = CHR ''+'' then (False, t) else (False, s))"

text \<open>An exponent part is read only when it has at least one digit.\<close>

definition parse_exponent :: "string \<Rightarrow> int \<times> string" where
  "parse_exponent s =
     (case s of
        [] \<Rightarrow> (0, s)
      | c # t \<Rightarrow>
          if c = CHR ''e'' \<or> c = CHR ''E'' then
            (let neg = fst (split_sign t); t' = snd (split_sign t); ds = takeWhile is_digit t'
             in if ds = [] then (0, s)
                else (if neg then - int (digits_val ds) else int (digits_val ds),
                      dropWhile is_digit t'))
          else (0, s))"

text \<open>
  The unsigned decimal grammar of the C conversion: digits, an optional point with
  digits, at least one digit in all, an optional exponent. The result is the exact
  value and the unread rest.
\<close>

definition parse_decimal :: "string \<Rightarrow> (rat \<times> string) option" where
  "parse_decimal s =
     (let ip = takeWhile is_digit s;
          r1 = dropWhile is_digit s;
          fp = (case r1 of [] \<Rightarrow> [] | c # t \<Rightarrow> if c = CHR ''.'' then takeWhile is_digit t else []);
          r2 = (case r1 of [] \<Rightarrow> [] | c # t \<Rightarrow> if c = CHR ''.'' then dropWhile is_digit t else r1)
      in if ip = [] \<and> fp = [] then None
         else Some (of_nat (digits_val (ip @ fp))
                      * 10 powi (fst (parse_exponent r2) - int (length fp)),
                    snd (parse_exponent r2)))"

definition parse_inf_nan :: "string \<Rightarrow> pyfloat option" where
  "parse_inf_nan s =
     (let neg = fst (split_sign s); l = map to_lower (snd (split_sign s))
      in if l = ''inf'' \<or> l = ''infinity'' then Some (Inf neg)
         else if l = ''nan'' then Some NaN
         else None)"

text \<open>
  \<^verbatim>\<open>float(s)\<close> for a str: underscores, white space, then a decimal number (rounded
  to the nearest double, overflowing to an infinity) or \<^verbatim>\<open>inf\<close>, \<^verbatim>\<open>infinity\<close>,
  \<^verbatim>\<open>nan\<close>; anything else raises \<^verbatim>\<open>ValueError\<close>.
\<close>

definition float_of_str :: "string \<Rightarrow> exn + pyfloat" where
  "float_of_str s =
     (let err = Exn ''ValueError'' (''could not convert string to float: '' @ py_repr s) in
      case (if CHR ''_'' \<in> set s then drop_underscores (CHR 0x00) s else Some s) of
        None \<Rightarrow> Inl err
      | Some t \<Rightarrow>
          (let u = strip_ws t; neg = fst (split_sign u); v = snd (split_sign u) in
           case parse_decimal v of
             Some (x, rest) \<Rightarrow> if rest = [] then Inr (fround neg x) else Inl err
           | None \<Rightarrow> (case parse_inf_nan u of Some f \<Rightarrow> Inr f | None \<Rightarrow> Inl err)))"

subsection \<open>Parsed JSON\<close>

text \<open>
  What \<^verbatim>\<open>response.json()\<close> returns and what \<^verbatim>\<open>jsonify\<close> takes. A \<^verbatim>\<open>dict\<close> is an
  association list in insertion order; the first binding of a key is the one looked up.
\<close>

datatype jvalue =
    JNull
  | JBool bool
  | JInt int
  | JFloat pyfloat
  | JStr string
  | JArr "jvalue list"
  | JObj "(string \<times> jvalue) list"

fun type_name :: "jvalue \<Rightarrow> string" where
  "type_name JNull = ''NoneType''"
| "type_name (JBool b) = ''bool''"
| "type_name (JInt n) = ''int''"
| "type_name (JFloat x) = ''float''"
| "type_name (JStr s) = ''str''"
| "type_name (JArr xs) = ''list''"
| "type_name (JObj kvs) = ''dict''"

text \<open>\<^verbatim>\<open>bool(v)\<close>, the test of \<^verbatim>\<open>if v:\<close>.\<close>

fun truthy :: "jvalue \<Rightarrow> bool" where
  "truthy JNull = False"
| "truthy (JBool b) = b"
| "truthy (JInt n) = (n \<noteq> 0)"
| "truthy (JFloat x) = float_truthy x"
| "truthy (JStr s) = (s \<noteq> [])"
| "truthy (JArr xs) = (xs \<noteq> [])"
| "truthy (JObj kvs) = (kvs \<noteq> [])"

text \<open>\<^verbatim>\<open>v[k]\<close> with a str key \<open>k\<close>.\<close>

fun getitem :: "jvalue \<Rightarrow> string \<Rightarrow> exn + jvalue" where
  "getitem (JObj kvs) k =
     (case map_of kvs k of
        None \<Rightarrow> Inl (Exn ''KeyError'' (py_repr k))
      | Some v \<Rightarrow> Inr v)"
| "getitem (JArr xs) k =
     Inl (Exn ''TypeError'' ''list indices must be integers or slices, not str'')"
| "getitem (JStr s) k =
     Inl (Exn ''TypeError'' (''string indices must be integers, not '' @ quoted ''str''))"
| "getitem v k =
     Inl (Exn ''TypeError'' (quoted (type_name v) @ '' object is not subscriptable''))"

text \<open>\<^verbatim>\<open>v[0]\<close>. The keys of a parsed JSON object are strings, so \<open>0\<close> is never one.\<close>

fun getitem0 :: "jvalue \<Rightarrow> exn + jvalue" where
  "getitem0 (JArr xs) =
     (case xs of
        [] \<Rightarrow> Inl (Exn ''IndexError'' ''list index out of range'')
      | x # rest \<Rightarrow> Inr x)"
| "getitem0 (JStr s) =
     (case s of
        [] \<Rightarrow> Inl (Exn ''IndexError'' ''string index out of range'')
      | c # rest \<Rightarrow> Inr (JStr [c]))"
| "getitem0 (JObj kvs) = Inl (Exn ''KeyError'' ''0'')"
| "getitem0 v =
     Inl (Exn ''TypeError'' (quoted (type_name v) @ '' object is not subscriptable''))"

text \<open>\<^verbatim>\<open>v.get(k)\<close>: only a dict has the method; a missing key gives \<^verbatim>\<open>None\<close>.\<close>

fun py_get :: "jvalue \<Rightarrow> string \<Rightarrow> exn + jvalue" where
  "py_get (JObj kvs) k = Inr (case map_of kvs k of None \<Rightarrow> JNull | Some v \<Rightarrow> v)"
| "py_get v k =
     Inl (Exn ''AttributeError''
            (quoted (type_name v) @ '' object has no attribute '' @ quoted ''get''))"

text \<open>\<^verbatim>\<open>v[:10]\<close>.\<close>

fun slice10 :: "jvalue \<Rightarrow> exn + jvalue" where
  "slice10 (JArr xs) = Inr (JArr (take 10 xs))"
| "slice10 (JStr s) = Inr (JStr (take 10 s))"
| "slice10 (JObj kvs) = Inl (Exn ''TypeError'' (''unhashable type: '' @ quoted ''slice''))"
| "slice10 v =
     Inl (Exn ''TypeError'' (quoted (type_name v) @ '' object is not subscriptable''))"

text \<open>The items that \<^verbatim>\<open>for x in v\<close> runs over.\<close>

fun py_iter :: "jvalue \<Rightarrow> exn + jvalue list" where
  "py_iter (JArr xs) = Inr xs"
| "py_iter (JStr s) = Inr (map (\<lambda>c. JStr [c]) s)"
| "py_iter (JObj kvs) = Inr (map JStr (remdups (map fst kvs)))"
| "py_iter v = Inl (Exn ''TypeError'' (quoted (type_name v) @ '' object is not iterable''))"

text \<open>\<^verbatim>\<open>x * v\<close> for a float \<open>x\<close>: an int or bool operand is converted to a float first.\<close>

fun float_times :: "pyfloat \<Rightarrow> jvalue \<Rightarrow> exn + pyfloat" where
  "float_times x (JFloat y) = Inr (fmul x y)"
| "float_times x (JInt n) =
     (case float_of_int n of Inl e \<Rightarrow> Inl e | Inr y \<Rightarrow> Inr (fmul x y))"
| "float_times x (JBool b) = Inr (fmul x (Finite False (if b then 1 else 0)))"
| "float_times x (JStr s) =
     Inl (Exn ''TypeError''
            (''can'' @ [CHR 0x27] @ ''t multiply sequence by non-int of type '' @ quoted ''float''))"
| "float_times x (JArr xs) =
     Inl (Exn ''TypeError''
            (''can'' @ [CHR 0x27] @ ''t multiply sequence by non-int of type '' @ quoted ''float''))"
| "float_times x v =
     Inl (Exn ''TypeError''
            (''unsupported operand type(s) for *: '' @ quoted ''float'' @ '' and ''
               @ quoted (type_name v)))"

section \<open>The environment of a request\<close>

text \<open>
  \<^verbatim>\<open>request.args\<close> and \<^verbatim>\<open>os.environ\<close> are maps from names to strings. The outside
  world answers \<^verbatim>\<open>requests.get(url)\<close>: the call raises, or returns a response with
  a status code whose \<^verbatim>\<open>json()\<close> method raises or returns the parsed body. Only
  exceptions derived from \<^verbatim>\<open>Exception\<close> are modelled.
\<close>

type_synonym args = "string \<rightharpoonup> string"

type_synonym environ = "string \<rightharpoonup> string"

record response =
  status_code :: int
  json :: "exn + jvalue"

type_synonym world = "string \<Rightarrow> exn + response"

definition getenv :: "environ \<Rightarrow> string \<Rightarrow> string \<Rightarrow> string" where
  "getenv env k d = (case env k of None \<Rightarrow> d | Some v \<Rightarrow> v)"

definition args_get :: "args \<Rightarrow> string \<Rightarrow> string \<Rightarrow> string" where
  "args_get a k d = (case a k of None \<Rightarrow> d | Some v \<Rightarrow> v)"

text \<open>
  What a view function gives back to Flask: \<^verbatim>\<open>jsonify(d)\<close> is a response with status
  200 and the JSON content type; returning the pair \<^verbatim>\<open>(response, code)\<close> sets the
  status.
\<close>

record flask_response =
  http_status :: int
  content_type :: string
  body :: jvalue

definition jsonify :: "jvalue \<Rightarrow> flask_response" where
  "jsonify d = \<lparr>http_status = 200, content_type = ''application/json'', body = d\<rparr>"

definition with_status :: "flask_response \<Rightarrow> int \<Rightarrow> flask_response" where
  "with_status r c = r\<lparr>http_status := c\<rparr>"

text \<open>
  The outcome of a view function: the exception that escapes it (\<open>Inl\<close>) or the response
  it returns (\<open>Inr\<close>), and the URLs it requested, in order.
\<close>

type_synonym outcome = "(exn + flask_response) \<times> string list"

definition bind_exn :: "exn + 'a \<Rightarrow> ('a \<Rightarrow> exn + 'b) \<Rightarrow> exn + 'b" where
  "bind_exn m f = (case m of Inl e \<Rightarrow> Inl e | Inr x \<Rightarrow> f x)"

text \<open>
  \<^verbatim>\<open>except Exception as e: return jsonify({'error': str(e)}), 500\<close>, the handler that
  closes the \<^verbatim>\<open>try\<close> block of each proxy view.
\<close>

definition except_Exception :: "exn + flask_response \<Rightarrow> exn + flask_response" where
  "except_Exception m =
     (case m of
        Inl e \<Rightarrow> Inr (with_status (jsonify (JObj [(''error'', JStr (exn_str e))])) 500)
      | Inr r \<Rightarrow> Inr r)"

section \<open>The view functions of \<^verbatim>\<open>app.py\<close>\<close>

definition error_body :: "string \<Rightarrow> jvalue" where
  "error_body msg = JObj [(''error'', JStr msg)]"

definition health :: outcome where
  "health =
     (Inr (jsonify (JObj [(''status'', JStr ''healthy''),
                          (''message'', JStr ''Dashboard API is running'')])), [])"

definition health_root :: outcome where
  "health_root =
     (Inr (jsonify (JObj [(''status'', JStr ''healthy''),
                          (''message'', JStr ''Dashboard API is running'')])), [])"

subsection \<open>Weather\<close>

definition weather_url :: "string \<Rightarrow> string \<Rightarrow> string" where
  "weather_url city api_key =
     ''http://api.openweathermap.org/data/2.5/weather?q='' @ city @ ''&appid='' @ api_key
       @ ''&units=metric''"

text \<open>The dict literal of the success branch; its values are evaluated in source order.\<close>

definition weather_fields :: "jvalue \<Rightarrow> exn + jvalue" where
  "weather_fields data =
     bind_exn (getitem data ''name'') (\<lambda>v_city.
     bind_exn (bind_exn (getitem data ''main'') (\<lambda>m. getitem m ''temp'')) (\<lambda>v_temperature.
     bind_exn (bind_exn (bind_exn (getitem data ''weather'') getitem0)
                 (\<lambda>w. getitem w ''description'')) (\<lambda>v_description.
     bind_exn (bind_exn (getitem data ''main'') (\<lambda>m. getitem m ''humidity'')) (\<lambda>v_humidity.
     bind_exn (bind_exn (getitem data ''wind'') (\<lambda>w. getitem w ''speed'')) (\<lambda>v_wind_speed.
     Inr (JObj [(''city'', v_city),
                (''temperature'', v_temperature),
                (''description'', v_description),
                (''humidity'', v_humidity),
                (''wind_speed'', v_wind_speed)]))))))"

definition get_weather :: "environ \<Rightarrow> world \<Rightarrow> args \<Rightarrow> outcome" where
  "get_weather env http_get a =
     (let city = args_get a ''city'' ''London'';
          api_key = getenv env ''OPENWEATHER_API_KEY'' []
      in if api_key = [] then
           (Inr (with_status (jsonify (error_body ''API key not configured'')) 500), [])
         else
           (let url = weather_url city api_key
            in (except_Exception
                  (bind_exn (http_get url) (\<lambda>response.
                   bind_exn (json response) (\<lambda>data.
                   if status_code response = 200 then
                     bind_exn (weather_fields data) (\<lambda>d. Inr (jsonify d))
                   else Inr (with_status (jsonify (error_body ''City not found'')) 404)))),
                [url])))"

subsection \<open>Currency\<close>

definition currency_url :: "string \<Rightarrow> string" where
  "currency_url from_currency = ''https://api.exchangerate-api.com/v4/latest/'' @ from_currency"

text \<open>
  \<^verbatim>\<open>float(request.args.get('amount', 1))\<close>: the int \<open>1\<close> when the parameter is missing,
  the parameter's text otherwise.
\<close>

definition amount_arg :: "args \<Rightarrow> exn + pyfloat" where
  "amount_arg a = (case a ''amount'' of None \<Rightarrow> float_of_int 1 | Some s \<Rightarrow> float_of_str s)"

text \<open>The amount is converted before the \<^verbatim>\<open>try\<close> block is entered.\<close>

definition convert_currency :: "world \<Rightarrow> args \<Rightarrow> outcome" where
  "convert_currency http_get a =
     (let from_currency = args_get a ''from'' ''USD'';
          to_currency = args_get a ''to'' ''EUR''
      in case amount_arg a of
           Inl e \<Rightarrow> (Inl e, [])
         | Inr amount \<Rightarrow>
             (let url = currency_url from_currency
              in (except_Exception
                    (bind_exn (http_get url) (\<lambda>response.
                     bind_exn (json response) (\<lambda>data.
                     if status_code response = 200 then
                       bind_exn (bind_exn (getitem data ''rates'') (\<lambda>r. py_get r to_currency))
                         (\<lambda>rate.
                       if truthy rate then
                         bind_exn (float_times amount rate) (\<lambda>converted_amount.
                         Inr (jsonify (JObj [(''from'', JStr from_currency),
                                             (''to'', JStr to_currency),
                                             (''amount'', JFloat amount),
                                             (''converted'', JFloat (py_round2 converted_amount)),
                                             (''rate'', rate)])))
                       else Inr (with_status (jsonify (error_body ''Invalid currency code'')) 400))
                     else
                       Inr (with_status
                              (jsonify (error_body ''Unable to fetch exchange rates'')) 500)))),
                  [url])))"

subsection \<open>GitHub\<close>

definition github_url :: "string \<Rightarrow> string" where
  "github_url username = ''https://api.github.com/users/'' @ username"

definition github_fields :: "jvalue \<Rightarrow> exn + jvalue" where
  "github_fields data =
     bind_exn (getitem data ''login'') (\<lambda>v_username.
     bind_exn (getitem data ''name'') (\<lambda>v_name.
     bind_exn (getitem data ''bio'') (\<lambda>v_bio.
     bind_exn (getitem data ''public_repos'') (\<lambda>v_public_repos.
     bind_exn (getitem data ''followers'') (\<lambda>v_followers.
     bind_exn (getitem data ''following'') (\<lambda>v_following.
     bind_exn (getitem data ''avatar_url'') (\<lambda>v_avatar_url.
     bind_exn (getitem data ''html_url'') (\<lambda>v_profile_url.
     Inr (JObj [(''username'', v_username),
                (''name'', v_name),
                (''bio'', v_bio),
                (''public_repos'', v_public_repos),
                (''followers'', v_followers),
                (''following'', v_following),
                (''avatar_url'', v_avatar_url),
                (''profile_url'', v_profile_url)])))))))))"

definition get_github_stats :: "world \<Rightarrow> string \<Rightarrow> outcome" where
  "get_github_stats http_get username =
     (let url = github_url username
      in (except_Exception
            (bind_exn (http_get url) (\<lambda>response.
             bind_exn (json response) (\<lambda>data.
             if status_code response = 200 then
               bind_exn (github_fields data) (\<lambda>d. Inr (jsonify d))
             else Inr (with_status (jsonify (error_body ''User not found'')) 404)))),
          [url]))"

subsection \<open>IP lookup\<close>

definition ip_url :: "string \<Rightarrow> string" where
  "ip_url ip =
     (if ip \<noteq> [] then ''https://ipapi.co/'' @ ip @ ''/json/'' else ''https://ipapi.co/json/'')"

definition ip_fields :: "jvalue \<Rightarrow> exn + jvalue" where
  "ip_fields data =
     bind_exn (py_get data ''ip'') (\<lambda>v_ip.
     bind_exn (py_get data ''city'') (\<lambda>v_city.
     bind_exn (py_get data ''region'') (\<lambda>v_region.
     bind_exn (py_get data ''country_name'') (\<lambda>v_country.
     bind_exn (py_get data ''timezone'') (\<lambda>v_timezone.
     bind_exn (py_get data ''org'') (\<lambda>v_org.
     Inr (JObj [(''ip'', v_ip),
                (''city'', v_city),
                (''region'', v_region),
                (''country'', v_country),
                (''timezone'', v_timezone),
                (''org'', v_org)])))))))"

definition ip_lookup :: "world \<Rightarrow> args \<Rightarrow> outcome" where
  "ip_lookup http_get a =
     (let ip = args_get a ''ip'' [];
          url = ip_url ip
      in (except_Exception
            (bind_exn (http_get url) (\<lambda>response.
             bind_exn (json response) (\<lambda>data.
             if status_code response = 200 then
               bind_exn (ip_fields data) (\<lambda>d. Inr (jsonify d))
             else Inr (with_status (jsonify (error_body ''Unable to lookup IP'')) 500)))),
          [url]))"

subsection \<open>News\<close>

definition news_url :: string where
  "news_url = ''https://dev.to/api/articles?tag=webdev&top=7''"

definition article_fields :: "jvalue \<Rightarrow> exn + jvalue" where
  "article_fields article =
     bind_exn (getitem article ''title'') (\<lambda>v_title.
     bind_exn (getitem article ''description'') (\<lambda>v_description.
     bind_exn (getitem article ''url'') (\<lambda>v_url.
     bind_exn (getitem article ''published_at'') (\<lambda>v_published_at.
     bind_exn (getitem article ''tag_list'') (\<lambda>v_tags.
     Inr (JObj [(''title'', v_title),
                (''description'', v_description),
                (''url'', v_url),
                (''published_at'', v_published_at),
                (''tags'', v_tags)]))))))"

text \<open>
  The \<^verbatim>\<open>for\<close> loop: \<open>articles\<close> is the list built so far, and each item appends one
  entry; the first item that raises ends the loop.
\<close>

fun append_articles :: "jvalue list \<Rightarrow> jvalue list \<Rightarrow> exn + jvalue list" where
  "append_articles articles [] = Inr articles"
| "append_articles articles (article # rest) =
     bind_exn (article_fields article) (\<lambda>entry. append_articles (articles @ [entry]) rest)"

definition get_news :: "world \<Rightarrow> outcome" where
  "get_news http_get =
     (let url = news_url
      in (except_Exception
            (bind_exn (http_get url) (\<lambda>response.
             bind_exn (json response) (\<lambda>data.
             if status_code response = 200 then
               bind_exn (bind_exn (slice10 data) py_iter) (\<lambda>items.
               bind_exn (append_articles [] items) (\<lambda>articles.
               Inr (jsonify (JObj [(''articles'', JArr articles)]))))
             else Inr (with_status (jsonify (error_body ''Unable to fetch news'')) 500)))),
          [url]))"

subsection \<open>Routing\<close>

text \<open>
  The URL map that the \<^verbatim>\<open>@app.route\<close> decorators build, for a GET request with path
  \<open>path\<close> and query parameters \<open>a\<close>. \<open>None\<close> is a path no rule matches, which Flask
  itself answers. The \<^verbatim>\<open><username>\<close> segment is non-empty and has no slash.
\<close>

definition github_prefix :: string where
  "github_prefix = ''/api/github/''"

definition dispatch :: "environ \<Rightarrow> world \<Rightarrow> string \<Rightarrow> args \<Rightarrow> outcome option" where
  "dispatch env http_get path a =
     (if path = ''/api/health'' then Some health
      else if path = ''/health'' then Some health_root
      else if path = ''/api/weather'' then Some (get_weather env http_get a)
      else if path = ''/api/currency'' then Some (convert_currency http_get a)
      else if path = ''/api/ip-lookup'' then Some (ip_lookup http_get a)
      else if path = ''/api/news'' then Some (get_news http_get)
      else if take (length github_prefix) path = github_prefix
              \<and> drop (length github_prefix) path \<noteq> []
              \<and> CHR ''/'' \<notin> set (drop (length github_prefix) path)
        then Some (get_github_stats http_get (drop (length github_prefix) path))
      else None)"

subsection \<open>Fixed worlds\<close>

text \<open>The world in which every outbound request has the same result.\<close>

definition always :: "exn + response \<Rightarrow> world" where
  "always r url = r"

section \<open>Facts about the primitives\<close>

subsection \<open>Rounding to a double\<close>

lemma quotient_of_pos:
  assumes "0 < a"
  shows "0 < fst (quotient_of a)" and "0 < snd (quotient_of a)"
    and "a = of_int (fst (quotient_of a)) / of_int (snd (quotient_of a))"
proof -
  obtain p q where pq: "quotient_of a = (p, q)" by (cases "quotient_of a")
  then have q: "0 < q" by (rule quotient_of_denom_pos)
  have a: "a = of_int p / of_int q" using pq by (rule quotient_of_div)
  with assms q have "0 < p" by (simp add: zero_less_divide_iff)
  with q a pq show "0 < fst (quotient_of a)" and "0 < snd (quotient_of a)"
    and "a = of_int (fst (quotient_of a)) / of_int (snd (quotient_of a))" by simp_all
qed

lemma bitlen_powi_bounds:
  assumes "0 < p"
  shows "(2::rat) powi (bitlen p - 1) \<le> of_int p" and "of_int p < (2::rat) powi (bitlen p)"
proof -
  from assms have b1: "1 \<le> bitlen p" by (auto simp: bitlen_alt_def)
  from bitlen_bounds [OF assms]
  have lo: "2 ^ nat (bitlen p - 1) \<le> p" and hi: "p < 2 ^ nat (bitlen p)"
    by simp_all
  from lo have "(of_int (2 ^ nat (bitlen p - 1)) :: rat) \<le> of_int p"
    by (simp only: of_int_le_iff)
  then show "(2::rat) powi (bitlen p - 1) \<le> of_int p" using b1 by (simp add: power_int_def)
  from hi have "(of_int p :: rat) < of_int (2 ^ nat (bitlen p))"
    by (simp only: of_int_less_iff)
  then show "of_int p < (2::rat) powi (bitlen p)" using b1 by (simp add: power_int_def)
qed

text \<open>\<open>ilog2\<close> is the binary exponent: \<open>2\<^sup>e \<le> a < 2\<^sup>e\<^sup>+\<^sup>1\<close>.\<close>

lemma ilog2_bounds:
  assumes "0 < a"
  shows "2 powi (ilog2 a) \<le> a \<and> a < 2 powi (ilog2 a + 1)"
proof -
  define p where "p = fst (quotient_of a)"
  define q where "q = snd (quotient_of a)"
  define d where "d = bitlen p - bitlen q"
  from quotient_of_pos [OF assms]
  have p: "0 < p" and q: "0 < q" and a: "a = of_int p / of_int q"
    by (simp_all add: p_def q_def)
  have qr: "(0::rat) < of_int q" using q by simp
  have "a < 2 powi (bitlen p) / 2 powi (bitlen q - 1)"
    unfolding a using bitlen_powi_bounds [OF p] bitlen_powi_bounds [OF q] qr p
    by (intro frac_less) simp_all
  also have "\<dots> = 2 powi (bitlen p - (bitlen q - 1))"
    by (rule power_int_diff [symmetric]) simp
  finally have hi: "a < 2 powi (d + 1)" by (simp add: d_def algebra_simps)
  have "2 powi (bitlen p - 1) / 2 powi (bitlen q) \<le> a"
    unfolding a using bitlen_powi_bounds [OF p] bitlen_powi_bounds [OF q] qr p
    by (intro frac_le) simp_all
  moreover have "(2::rat) powi (bitlen p - 1) / 2 powi (bitlen q) = 2 powi (bitlen p - 1 - bitlen q)"
    by (rule power_int_diff [symmetric]) simp
  ultimately have lo: "2 powi (d - 1) \<le> a" by (simp add: d_def algebra_simps)
  have il: "ilog2 a = (if 2 powi d \<le> a then d else d - 1)"
    by (simp add: ilog2_def Let_def d_def p_def q_def)
  show ?thesis using hi lo by (auto simp: il)
qed

lemma ilog2_eqI:
  assumes "0 < a" and "2 powi e \<le> a" and "a < 2 powi (e + 1)"
  shows "ilog2 a = e"
proof -
  from ilog2_bounds [OF assms(1)]
  have lo: "2 powi (ilog2 a) \<le> a" and hi: "a < 2 powi (ilog2 a + 1)"
    by simp_all
  from assms(2) hi have h1: "(2::rat) powi e < 2 powi (ilog2 a + 1)" by simp
  have 1: "e < ilog2 a + 1"
  proof (rule ccontr)
    assume "\<not> e < ilog2 a + 1"
    then have "ilog2 a + 1 \<le> e" by simp
    then have "(2::rat) powi (ilog2 a + 1) \<le> 2 powi e" by (rule power_int_increasing) simp
    with h1 show False by simp
  qed
  from lo assms(3) have h2: "(2::rat) powi (ilog2 a) < 2 powi (e + 1)" by simp
  have 2: "ilog2 a < e + 1"
  proof (rule ccontr)
    assume "\<not> ilog2 a < e + 1"
    then have "e + 1 \<le> ilog2 a" by simp
    then have "(2::rat) powi (e + 1) \<le> 2 powi (ilog2 a)" by (rule power_int_increasing) simp
    with h2 show False by simp
  qed
  from 1 2 show ?thesis by simp
qed

lemma rne_binade:
  assumes "0 < a" and "2 powi e \<le> a" and "a < 2 powi (e + 1)"
  shows "rne a =
           (let u = 2 powi (max e (- 1022) - 52);
                y = of_int (round_half_even (a / u)) * u
            in if 2 ^ 1024 \<le> y then None else Some y)"
  using assms by (simp add: rne_def ilog2_eqI)

lemma rne_1: "rne 1 = Some 1"
  by (simp add: rne_binade [where e = 0] round_half_even_def Let_def)

lemma rne_10: "rne 10 = Some 10"
  by (simp add: rne_binade [where e = 3] round_half_even_def Let_def)

lemma rne_15_2: "rne (15 / 2) = Some (15 / 2)"
  by (simp add: rne_binade [where e = 2] round_half_even_def Let_def)

lemma rne_2_1024: "rne (2 ^ 1024) = None"
  by (simp add: rne_binade [where e = 1024] round_half_even_def Let_def)

lemma float_of_int_1: "float_of_int 1 = Inr (Finite False 1)"
  by (simp add: float_of_int_def rne_1)

text \<open>Integers below \<open>2\<^sup>1\<^sup>0\<^sup>2\<^sup>3\<close> in magnitude convert to a float; every float operand multiplies.\<close>

lemma round_half_even_le: "round_half_even x \<le> \<lfloor>x\<rfloor> + 1"
  by (simp add: round_half_even_def Let_def)

lemma rne_defined:
  assumes "0 < a" and "a < 2 ^ 1023"
  shows "\<exists>y. rne a = Some y"
proof -
  define m where "m = max (ilog2 a) (- 1022)"
  define u :: rat where "u = 2 powi (m - 52)"
  define y where "y = of_int (round_half_even (a / u)) * u"
  from ilog2_bounds [OF assms(1)]
  have lo: "2 powi (ilog2 a) \<le> a" and hi: "a < 2 powi (ilog2 a + 1)" by simp_all
  have u: "0 < u" by (simp add: u_def)
  have "ilog2 a < 1023"
  proof (rule ccontr)
    assume "\<not> ilog2 a < 1023"
    then have "(2::rat) powi 1023 \<le> 2 powi (ilog2 a)" by (intro power_int_increasing) simp_all
    with lo assms(2) show False by simp
  qed
  then have m: "m + 1 \<le> 1023" by (simp add: m_def)
  have "(2::rat) powi (ilog2 a + 1) \<le> 2 powi (m + 1)"
    by (intro power_int_increasing) (simp_all add: m_def)
  with hi have am: "a < 2 powi (m + 1)" by simp
  have "m + 1 = 53 + (m - 52)" by simp
  then have "(2::rat) powi (m + 1) = 2 powi (53 + (m - 52))" by (rule arg_cong)
  also have "\<dots> = 2 powi 53 * 2 powi (m - 52)" by (rule power_int_add) simp
  finally have split: "(2::rat) powi (m + 1) = 2 ^ 53 * u" by (simp add: u_def)
  from am split u have "a / u < 2 ^ 53" by (simp add: pos_divide_less_eq)
  then have "\<lfloor>a / u\<rfloor> < 2 ^ 53" by (simp add: floor_less_iff)
  with round_half_even_le [of "a / u"] have "round_half_even (a / u) \<le> 2 ^ 53" by linarith
  then have "(of_int (round_half_even (a / u)) :: rat) \<le> of_int (2 ^ 53)"
    by (simp only: of_int_le_iff)
  then have "y \<le> 2 ^ 53 * u" unfolding y_def using u by (simp add: mult_right_mono)
  also have "\<dots> = 2 powi (m + 1)" using split by simp
  also have "\<dots> \<le> 2 powi 1023" using m by (intro power_int_increasing) simp_all
  also have "\<dots> < (2::rat) ^ 1024" by simp
  finally have "\<not> 2 ^ 1024 \<le> y" by simp
  then show ?thesis using assms(1) by (simp add: rne_def Let_def m_def u_def y_def)
qed

lemma float_of_int_defined:
  assumes "\<bar>n\<bar> < 2 ^ 1023"
  shows "\<exists>y. float_of_int n = Inr (Finite (n < 0) y)"
proof (cases "n = 0")
  case True
  then show ?thesis by (simp add: float_of_int_def rne_def)
next
  case False
  then have "(0::rat) < of_int \<bar>n\<bar>" by simp
  moreover from assms have "(of_int \<bar>n\<bar> :: rat) < of_int (2 ^ 1023)" by (simp only: of_int_less_iff)
  then have "(of_int \<bar>n\<bar> :: rat) < 2 ^ 1023" by simp
  ultimately obtain y where "rne (of_int \<bar>n\<bar>) = Some y" using rne_defined by blast
  then show ?thesis by (simp add: float_of_int_def)
qed

lemma float_times_number:
  "\<exists>p. float_times x (JFloat y) = Inr p"
  "\<bar>n\<bar> < 2 ^ 1023 \<Longrightarrow> \<exists>p. float_times x (JInt n) = Inr p"
  using float_of_int_defined [of n] by auto

subsection \<open>Exceptions and responses\<close>

lemma bind_exn_Inl [simp]: "bind_exn (Inl e) f = Inl e"
  by (simp add: bind_exn_def)

lemma bind_exn_Inr [simp]: "bind_exn (Inr x) f = f x"
  by (simp add: bind_exn_def)

lemma except_Exception_simps [simp]:
  "except_Exception (Inl e) = Inr (with_status (jsonify (error_body (exn_str e))) 500)"
  "except_Exception (Inr r) = Inr r"
  by (simp_all add: except_Exception_def error_body_def)

lemma always_simp [simp]: "always r url = r"
  by (simp add: always_def)

lemma py_repr_name: "py_repr ''name'' = quoted ''name''"
  by (simp add: py_repr_def repr_char_def quoted_def Let_def)

lemma float_of_str_abc:
  "float_of_str ''abc'' =
     Inl (Exn ''ValueError'' (''could not convert string to float: '' @ quoted ''abc''))"
  by code_simp

text \<open>The four views whose fallible steps are all inside the \<^verbatim>\<open>try\<close> block always return a response.\<close>

lemma views_with_try_never_raise:
  "\<not> isl (fst (get_weather env http_get a))"
  "\<not> isl (fst (get_github_stats http_get username))"
  "\<not> isl (fst (ip_lookup http_get a))"
  "\<not> isl (fst (get_news http_get))"
  by (simp_all add: get_weather_def get_github_stats_def ip_lookup_def get_news_def Let_def
      except_Exception_def split: sum.splits)

section \<open>The claims\<close>

text \<open>
  C2. Claim: in every view function, every exception raised while the request is handled,
  the parsing of query parameters included, ends in an HTTP 500 response with the body
  \<open>{error: message}\<close>, and none escapes the view. In \<^verbatim>\<open>convert_currency\<close> the amount
  is converted by \<^verbatim>\<open>float\<close> before the \<^verbatim>\<open>try\<close> block: for the request
  \<^verbatim>\<open>/api/currency?amount=abc\<close> the \<^verbatim>\<open>ValueError\<close> leaves the view, whatever the world
  does, and no outbound request is made. The other four proxy views have every fallible
  step inside their \<^verbatim>\<open>try\<close> block (\<open>views_with_try_never_raise\<close>).
\<close>

theorem currency_bad_amount_escapes:
  "convert_currency http_get (map_of [(''amount'', ''abc'')]) =
     (Inl (Exn ''ValueError'' (''could not convert string to float: '' @ quoted ''abc'')), [])"
  by (simp add: convert_currency_def amount_arg_def float_of_str_abc Let_def)

text \<open>
  C3. When \<^verbatim>\<open>OPENWEATHER_API_KEY\<close> is unset or empty, the weather view returns HTTP 500
  with the body \<open>{error: 'API key not configured'}\<close> and requests no URL, whatever the
  query parameters and the world are.
\<close>

theorem weather_without_api_key:
  assumes "env ''OPENWEATHER_API_KEY'' = None \<or> env ''OPENWEATHER_API_KEY'' = Some []"
  shows "get_weather env http_get a =
           (Inr \<lparr>http_status = 500, content_type = ''application/json'',
                 body = JObj [(''error'', JStr ''API key not configured'')]\<rparr>, [])"
  using assms
  by (auto simp: get_weather_def getenv_def Let_def with_status_def jsonify_def error_body_def)

theorem weather_without_api_key_witness:
  "get_weather (map_of [(''PATH'', ''/usr/bin'')])
       (always (Inl (Exn ''ConnectionError'' ''down''))) (map_of [(''city'', ''Lisbon'')]) =
     (Inr \<lparr>http_status = 500, content_type = ''application/json'',
           body = JObj [(''error'', JStr ''API key not configured'')]\<rparr>, [])"
  using weather_without_api_key [of "map_of [(''PATH'', ''/usr/bin'')]"
      "always (Inl (Exn ''ConnectionError'' ''down''))" "map_of [(''city'', ''Lisbon'')]"]
  by simp

text \<open>
  C4. Claim: for every upstream response with a status code other than 200 the weather
  view returns HTTP 404 with \<open>{error: 'City not found'}\<close> and the GitHub view HTTP 404
  with \<open>{error: 'User not found'}\<close>. Each view calls \<^verbatim>\<open>response.json()\<close> before it
  looks at the status code: when the upstream answers 502 with a body that is not JSON,
  the parse error is caught and the weather view returns HTTP 500 with the message of
  the parser.
\<close>

theorem weather_unparsable_error_page:
  "fst (get_weather (map_of [(''OPENWEATHER_API_KEY'', ''k'')])
          (always (Inr \<lparr>status_code = 502,
             json = Inl (Exn ''JSONDecodeError''
                       ''Expecting value: line 1 column 1 (char 0)'')\<rparr>))
          (map_of [])) =
     Inr \<lparr>http_status = 500, content_type = ''application/json'',
           body = JObj [(''error'', JStr ''Expecting value: line 1 column 1 (char 0)'')]\<rparr>"
  by (simp add: get_weather_def getenv_def Let_def with_status_def jsonify_def
      error_body_def)

text \<open>
  C4, amended. For every upstream response with a status code other than 200 whose body
  parses as JSON, the weather view (with an API key configured) returns HTTP 404 with the
  fixed body \<open>{error: 'City not found'}\<close> and the GitHub view returns HTTP 404 with the
  fixed body \<open>{error: 'User not found'}\<close>: nothing of the upstream response is in
  either.
\<close>

theorem upstream_not_200:
  assumes "json response = Inr data" and "status_code response \<noteq> 200"
  shows "(env ''OPENWEATHER_API_KEY'' = Some api_key \<and> api_key \<noteq> [] \<and>
          http_get (weather_url (args_get a ''city'' ''London'') api_key) = Inr response \<longrightarrow>
            fst (get_weather env http_get a) =
              Inr \<lparr>http_status = 404, content_type = ''application/json'',
                    body = JObj [(''error'', JStr ''City not found'')]\<rparr>)
       \<and> (http_get (github_url username) = Inr response \<longrightarrow>
            fst (get_github_stats http_get username) =
              Inr \<lparr>http_status = 404, content_type = ''application/json'',
                    body = JObj [(''error'', JStr ''User not found'')]\<rparr>)"
  using assms
  by (simp add: get_weather_def get_github_stats_def getenv_def Let_def with_status_def
      jsonify_def error_body_def)

theorem upstream_not_200_witness:
  "fst (get_weather (map_of [(''OPENWEATHER_API_KEY'', ''k'')])
          (always (Inr \<lparr>status_code = 404,
                         json = Inr (JObj [(''message'', JStr ''Not Found'')])\<rparr>))
          (map_of [(''city'', ''Atlantis'')])) =
     Inr \<lparr>http_status = 404, content_type = ''application/json'',
           body = JObj [(''error'', JStr ''City not found'')]\<rparr>
   \<and> fst (get_github_stats
          (always (Inr \<lparr>status_code = 404,
                         json = Inr (JObj [(''message'', JStr ''Not Found'')])\<rparr>))
          ''nobody'') =
     Inr \<lparr>http_status = 404, content_type = ''application/json'',
           body = JObj [(''error'', JStr ''User not found'')]\<rparr>"
  using upstream_not_200 [of
      "\<lparr>status_code = 404, json = Inr (JObj [(''message'', JStr ''Not Found'')])\<rparr>"
      "JObj [(''message'', JStr ''Not Found'')]"
      "map_of [(''OPENWEATHER_API_KEY'', ''k'')]" "''k''"
      "always (Inr \<lparr>status_code = 404,
                     json = Inr (JObj [(''message'', JStr ''Not Found'')])\<rparr>)"
      "map_of [(''city'', ''Atlantis'')]" "''nobody''"]
  by simp

text \<open>
  C6. A GET request to \<^verbatim>\<open>/api/health\<close> or to \<^verbatim>\<open>/health\<close> returns HTTP 200 with the
  JSON content type and a body whose \<open>status\<close> field is \<open>'healthy'\<close>, in every
  environment and every world, and requests no URL.
\<close>

theorem health_always_healthy:
  "dispatch env http_get ''/api/health'' a =
     Some (Inr \<lparr>http_status = 200, content_type = ''application/json'',
                body = JObj [(''status'', JStr ''healthy''),
                             (''message'', JStr ''Dashboard API is running'')]\<rparr>, [])
   \<and> dispatch env http_get ''/health'' a =
     Some (Inr \<lparr>http_status = 200, content_type = ''application/json'',
                body = JObj [(''status'', JStr ''healthy''),
                             (''message'', JStr ''Dashboard API is running'')]\<rparr>, [])"
  by (simp add: dispatch_def health_def health_root_def jsonify_def)

lemmas response_defs = with_status_def jsonify_def error_body_def

subsection \<open>Currency conversion\<close>

lemma float_of_str_10: "float_of_str ''10'' = Inr (Finite False 10)"
proof -
  have "parse_decimal ''10'' = Some (10, [])" by code_simp
  moreover have "strip_ws ''10'' = ''10''" by code_simp
  moreover have "split_sign ''10'' = (False, ''10'')" by code_simp
  moreover have "CHR ''_'' \<notin> set ''10''" by simp
  ultimately show ?thesis by (simp add: float_of_str_def Let_def fround_def rne_10)
qed

lemma float_of_int_2_1024:
  "float_of_int (2 ^ 1024) = Inl (Exn ''OverflowError'' ''int too large to convert to float'')"
proof -
  have "rne (of_int \<bar>2 ^ 1024\<bar>) = None" using rne_2_1024 by simp
  then show ?thesis unfolding float_of_int_def by simp
qed

text \<open>
  C1. Claim: when the upstream answers 200 and the \<open>rates\<close> map of its body has the target
  currency with a non-zero rate \<open>r\<close>, the currency view responds HTTP 200 with
  \<open>converted = round(amount * r, 2)\<close>. The product \<open>amount * r\<close> is a float operation:
  an integer \<open>r\<close> is converted to a float first, and \<open>r = 2\<^sup>1\<^sup>0\<^sup>2\<^sup>4\<close> is out of the range of
  a double. With no query parameters (amount 1.0, USD to EUR) and the upstream body
  \<open>{rates: {EUR: 2\<^sup>1\<^sup>0\<^sup>2\<^sup>4}}\<close> the multiplication raises \<^verbatim>\<open>OverflowError\<close> inside the
  \<^verbatim>\<open>try\<close> block and the view responds HTTP 500.
\<close>

theorem currency_huge_int_rate:
  "fst (convert_currency
         (always (Inr \<lparr>status_code = 200,
            json = Inr (JObj [(''rates'', JObj [(''EUR'', JInt (2 ^ 1024))])])\<rparr>))
         (map_of [])) =
     Inr \<lparr>http_status = 500, content_type = ''application/json'',
           body = JObj [(''error'', JStr ''int too large to convert to float'')]\<rparr>"
  using float_of_int_2_1024
  by (simp add: convert_currency_def amount_arg_def float_of_int_1 Let_def args_get_def
      response_defs)

text \<open>
  C1, amended. When the amount parameter converts to the float \<open>amount\<close> (1.0 when it is
  missing), the upstream answers 200, the \<open>rates\<close> map of its body has the target currency
  with a non-zero rate \<open>r\<close>, and the float product \<open>amount * r\<close> is defined with value
  \<open>product\<close> (\<open>r\<close> is a float, or an integer that converts to a float), the view responds
  HTTP 200 with \<open>from\<close> and \<open>to\<close> as requested (defaults USD and EUR), \<open>amount\<close>,
  \<open>converted = round(product, 2)\<close> and \<open>rate = r\<close>.
\<close>

theorem currency_converted:
  assumes "amount_arg a = Inr amount"
    and "http_get (currency_url (args_get a ''from'' ''USD'')) = Inr response"
    and "status_code response = 200"
    and "json response = Inr (JObj kvs)"
    and "map_of kvs ''rates'' = Some (JObj rates)"
    and "map_of rates (args_get a ''to'' ''EUR'') = Some r"
    and "truthy r"
    and "float_times amount r = Inr product"
  shows "fst (convert_currency http_get a) =
     Inr \<lparr>http_status = 200, content_type = ''application/json'',
           body = JObj [(''from'', JStr (args_get a ''from'' ''USD'')),
                        (''to'', JStr (args_get a ''to'' ''EUR'')),
                        (''amount'', JFloat amount),
                        (''converted'', JFloat (py_round2 product)),
                        (''rate'', r)]\<rparr>"
  using assms by (simp add: convert_currency_def Let_def jsonify_def)

theorem currency_converted_witness:
  "fst (convert_currency
         (always (Inr \<lparr>status_code = 200,
            json = Inr (JObj [(''base'', JStr ''USD''),
                              (''rates'', JObj [(''EUR'', JFloat (Finite False (3 / 4)))])])\<rparr>))
         (map_of [(''from'', ''USD''), (''to'', ''EUR''), (''amount'', ''10'')])) =
     Inr \<lparr>http_status = 200, content_type = ''application/json'',
           body = JObj [(''from'', JStr ''USD''),
                        (''to'', JStr ''EUR''),
                        (''amount'', JFloat (Finite False 10)),
                        (''converted'', JFloat (Finite False (15 / 2))),
                        (''rate'', JFloat (Finite False (3 / 4)))]\<rparr>"
  using currency_converted [of
      "map_of [(''from'', ''USD''), (''to'', ''EUR''), (''amount'', ''10'')]"
      "Finite False 10"
      "always (Inr \<lparr>status_code = 200,
            json = Inr (JObj [(''base'', JStr ''USD''),
                              (''rates'', JObj [(''EUR'', JFloat (Finite False (3 / 4)))])])\<rparr>)"
      "\<lparr>status_code = 200,
            json = Inr (JObj [(''base'', JStr ''USD''),
                              (''rates'', JObj [(''EUR'', JFloat (Finite False (3 / 4)))])])\<rparr>"
      "[(''base'', JStr ''USD''), (''rates'', JObj [(''EUR'', JFloat (Finite False (3 / 4)))])]"
      "[(''EUR'', JFloat (Finite False (3 / 4)))]"
      "JFloat (Finite False (3 / 4))"
      "Finite False (15 / 2)"]
  by (simp add: amount_arg_def float_of_str_10 args_get_def fround_def rne_15_2
      round_half_even_def Let_def)

text \<open>
  C10. When the amount converts, the upstream answers 200 and the body has a \<open>rates\<close> map,
  the view returns HTTP 400 with \<open>{error: 'Invalid currency code'}\<close> exactly when the
  target currency is absent from the map or its rate is falsy; in particular a rate of
  \<open>0\<close> gives the 400 response, not a conversion to zero.
\<close>

theorem currency_invalid_code:
  assumes "amount_arg a = Inr amount"
    and "http_get (currency_url (args_get a ''from'' ''USD'')) = Inr response"
    and "status_code response = 200"
    and "json response = Inr (JObj kvs)"
    and "map_of kvs ''rates'' = Some (JObj rates)"
  shows "((fst (convert_currency http_get a) =
            Inr \<lparr>http_status = 400, content_type = ''application/json'',
                  body = JObj [(''error'', JStr ''Invalid currency code'')]\<rparr>)
          = (case map_of rates (args_get a ''to'' ''EUR'') of
               None \<Rightarrow> True
             | Some rate \<Rightarrow> \<not> truthy rate))
       \<and> (map_of rates (args_get a ''to'' ''EUR'') = Some (JInt 0) \<longrightarrow>
            fst (convert_currency http_get a) =
              Inr \<lparr>http_status = 400, content_type = ''application/json'',
                    body = JObj [(''error'', JStr ''Invalid currency code'')]\<rparr>)"
  using assms
  by (auto simp: convert_currency_def Let_def response_defs bind_exn_def
      split: option.splits sum.splits)

theorem currency_invalid_code_witness:
  "fst (convert_currency
         (always (Inr \<lparr>status_code = 200,
            json = Inr (JObj [(''rates'', JObj [(''EUR'', JInt 0)])])\<rparr>))
         (map_of [])) =
     Inr \<lparr>http_status = 400, content_type = ''application/json'',
           body = JObj [(''error'', JStr ''Invalid currency code'')]\<rparr>"
  using currency_invalid_code [of "map_of []" "Finite False 1"
      "always (Inr \<lparr>status_code = 200,
            json = Inr (JObj [(''rates'', JObj [(''EUR'', JInt 0)])])\<rparr>)"
      "\<lparr>status_code = 200, json = Inr (JObj [(''rates'', JObj [(''EUR'', JInt 0)])])\<rparr>"
      "[(''rates'', JObj [(''EUR'', JInt 0)])]"
      "[(''EUR'', JInt 0)]"]
  by (simp add: amount_arg_def float_of_int_1 args_get_def)

subsection \<open>News\<close>

lemma article_fields_present:
  assumes "{''title'', ''description'', ''url'', ''published_at'', ''tag_list''}
             \<subseteq> dom (map_of kvs)"
  shows "\<exists>fields. article_fields (JObj kvs) = Inr (JObj fields)
           \<and> map fst fields = [''title'', ''description'', ''url'', ''published_at'', ''tags'']"
proof -
  from assms obtain v1 v2 v3 v4 v5 where
    "map_of kvs ''title'' = Some v1" "map_of kvs ''description'' = Some v2"
    "map_of kvs ''url'' = Some v3" "map_of kvs ''published_at'' = Some v4"
    "map_of kvs ''tag_list'' = Some v5"
    by (auto simp: dom_def)
  then show ?thesis by (simp add: article_fields_def)
qed

text \<open>The loop keeps what was built and adds one mapped entry per item.\<close>

lemma append_articles_present:
  assumes "\<forall>x \<in> set items. \<exists>kvs. x = JObj kvs \<and>
      {''title'', ''description'', ''url'', ''published_at'', ''tag_list''} \<subseteq> dom (map_of kvs)"
  shows "\<exists>out. append_articles acc items = Inr (acc @ out) \<and> length out = length items
           \<and> (\<forall>e \<in> set out. \<exists>fields. e = JObj fields
                 \<and> map fst fields
                     = [''title'', ''description'', ''url'', ''published_at'', ''tags''])"
  using assms
proof (induction items arbitrary: acc)
  case Nil
  then show ?case by simp
next
  case (Cons x items)
  from Cons.prems obtain kvs where x: "x = JObj kvs"
    and keys: "{''title'', ''description'', ''url'', ''published_at'', ''tag_list''}
                 \<subseteq> dom (map_of kvs)"
    by auto
  from article_fields_present [OF keys] obtain fields where
    f: "article_fields (JObj kvs) = Inr (JObj fields)"
    and ff: "map fst fields = [''title'', ''description'', ''url'', ''published_at'', ''tags'']"
    by auto
  from Cons.prems have rest: "\<forall>x \<in> set items. \<exists>kvs. x = JObj kvs \<and>
      {''title'', ''description'', ''url'', ''published_at'', ''tag_list''} \<subseteq> dom (map_of kvs)"
    by simp
  from Cons.IH [OF rest, of "acc @ [JObj fields]"] obtain out where
    o: "append_articles (acc @ [JObj fields]) items = Inr ((acc @ [JObj fields]) @ out)"
    and ol: "length out = length items"
    and oe: "\<forall>e \<in> set out. \<exists>fields. e = JObj fields
                 \<and> map fst fields
                     = [''title'', ''description'', ''url'', ''published_at'', ''tags'']"
    by auto
  have "append_articles acc (x # items) = Inr (acc @ (JObj fields # out))"
    using x f o by simp
  moreover have "length (JObj fields # out) = length (x # items)" using ol by simp
  moreover have "\<forall>e \<in> set (JObj fields # out). \<exists>fields. e = JObj fields
                 \<and> map fst fields
                     = [''title'', ''description'', ''url'', ''published_at'', ''tags'']"
    using ff oe by simp
  ultimately show ?case by (intro exI [of _ "JObj fields # out"] conjI)
qed

text \<open>
  C5. When the upstream answers 200 with a list of articles, each an object with the keys
  \<open>title\<close>, \<open>description\<close>, \<open>url\<close>, \<open>published_at\<close> and \<open>tag_list\<close>, the news view
  returns HTTP 200 with an \<open>articles\<close> list of at most 10 entries (the first 10 items, or
  all of them when there are fewer), each an object with exactly the five fields \<open>title\<close>,
  \<open>description\<close>, \<open>url\<close>, \<open>published_at\<close>, \<open>tags\<close>.
\<close>

theorem news_at_most_ten_articles:
  assumes "http_get news_url = Inr response"
    and "status_code response = 200"
    and "json response = Inr (JArr items)"
    and "\<forall>x \<in> set items. \<exists>kvs. x = JObj kvs \<and>
      {''title'', ''description'', ''url'', ''published_at'', ''tag_list''} \<subseteq> dom (map_of kvs)"
  shows "\<exists>articles. fst (get_news http_get) =
             Inr \<lparr>http_status = 200, content_type = ''application/json'',
                   body = JObj [(''articles'', JArr articles)]\<rparr>
           \<and> length articles = min 10 (length items)
           \<and> length articles \<le> 10
           \<and> (\<forall>e \<in> set articles. \<exists>fields. e = JObj fields
                 \<and> map fst fields
                     = [''title'', ''description'', ''url'', ''published_at'', ''tags''])"
proof -
  have "\<forall>x \<in> set (take 10 items). \<exists>kvs. x = JObj kvs \<and>
      {''title'', ''description'', ''url'', ''published_at'', ''tag_list''} \<subseteq> dom (map_of kvs)"
    using assms(4) by (meson in_set_takeD)
  from append_articles_present [OF this, of "[]"] obtain out where
    o: "append_articles [] (take 10 items) = Inr out"
    and ol: "length out = length (take 10 items)"
    and oe: "\<forall>e \<in> set out. \<exists>fields. e = JObj fields
                 \<and> map fst fields
                     = [''title'', ''description'', ''url'', ''published_at'', ''tags'']"
    by auto
  have "fst (get_news http_get) =
             Inr \<lparr>http_status = 200, content_type = ''application/json'',
                   body = JObj [(''articles'', JArr out)]\<rparr>"
    using assms(1-3) o by (simp add: get_news_def Let_def jsonify_def)
  moreover have "length out = min 10 (length items)" using ol by (simp add: min.commute)
  ultimately show ?thesis using oe by auto
qed

theorem news_at_most_ten_articles_witness:
  "\<exists>articles. fst (get_news (always (Inr \<lparr>status_code = 200,
        json = Inr (JArr (replicate 12
          (JObj [(''id'', JInt 7), (''title'', JStr ''T''), (''description'', JStr ''D''),
                 (''url'', JStr ''https://dev.to/t''), (''published_at'', JStr ''2024-01-01''),
                 (''tag_list'', JArr [JStr ''webdev''])])))\<rparr>))) =
             Inr \<lparr>http_status = 200, content_type = ''application/json'',
                   body = JObj [(''articles'', JArr articles)]\<rparr>
           \<and> length articles = min 10 12
           \<and> length articles \<le> 10
           \<and> (\<forall>e \<in> set articles. \<exists>fields. e = JObj fields
                 \<and> map fst fields
                     = [''title'', ''description'', ''url'', ''published_at'', ''tags''])"
  using news_at_most_ten_articles [of
      "always (Inr \<lparr>status_code = 200,
        json = Inr (JArr (replicate 12
          (JObj [(''id'', JInt 7), (''title'', JStr ''T''), (''description'', JStr ''D''),
                 (''url'', JStr ''https://dev.to/t''), (''published_at'', JStr ''2024-01-01''),
                 (''tag_list'', JArr [JStr ''webdev''])])))\<rparr>)"
      "\<lparr>status_code = 200,
        json = Inr (JArr (replicate 12
          (JObj [(''id'', JInt 7), (''title'', JStr ''T''), (''description'', JStr ''D''),
                 (''url'', JStr ''https://dev.to/t''), (''published_at'', JStr ''2024-01-01''),
                 (''tag_list'', JArr [JStr ''webdev''])])))\<rparr>"
      "replicate 12
          (JObj [(''id'', JInt 7), (''title'', JStr ''T''), (''description'', JStr ''D''),
                 (''url'', JStr ''https://dev.to/t''), (''published_at'', JStr ''2024-01-01''),
                 (''tag_list'', JArr [JStr ''webdev''])])"]
  by simp

subsection \<open>Weather with a missing key\<close>

lemma isl_bind_exn: "(\<And>x. isl (f x)) \<Longrightarrow> isl (bind_exn m f)"
  by (cases m) simp_all

text \<open>
  Every key and index that the success branch reads by direct access: the field
  extraction faults as soon as one of them is missing at the place where it is read.
\<close>

lemma weather_fields_missing_key:
  assumes "map_of kvs ''name'' = None \<or> map_of kvs ''main'' = None
       \<or> map_of kvs ''weather'' = None \<or> map_of kvs ''wind'' = None
       \<or> (\<exists>m. map_of kvs ''main'' = Some (JObj m)
              \<and> (map_of m ''temp'' = None \<or> map_of m ''humidity'' = None))
       \<or> map_of kvs ''weather'' = Some (JArr [])
       \<or> (\<exists>w rest. map_of kvs ''weather'' = Some (JArr (JObj w # rest))
              \<and> map_of w ''description'' = None)
       \<or> (\<exists>w. map_of kvs ''wind'' = Some (JObj w) \<and> map_of w ''speed'' = None)"
  shows "isl (weather_fields (JObj kvs))"
proof -
  have k1: "isl (weather_fields (JObj kvs))" if h: "map_of kvs ''name'' = None"
    by (simp add: weather_fields_def h)
  have k2: "isl (weather_fields (JObj kvs))" if h: "map_of kvs ''main'' = None"
    unfolding weather_fields_def by (rule isl_bind_exn) (simp add: h)
  have k3: "isl (weather_fields (JObj kvs))" if h: "map_of kvs ''weather'' = None"
    unfolding weather_fields_def by (rule isl_bind_exn, rule isl_bind_exn) (simp add: h)
  have k4: "isl (weather_fields (JObj kvs))" if h: "map_of kvs ''wind'' = None"
    unfolding weather_fields_def
    by (rule isl_bind_exn, rule isl_bind_exn, rule isl_bind_exn, rule isl_bind_exn)
      (simp add: h)
  have k5: "isl (weather_fields (JObj kvs))"
    if h: "map_of kvs ''main'' = Some (JObj m)" and t: "map_of m ''temp'' = None" for m
    unfolding weather_fields_def by (rule isl_bind_exn) (simp add: h t)
  have k6: "isl (weather_fields (JObj kvs))"
    if h: "map_of kvs ''main'' = Some (JObj m)" and t: "map_of m ''humidity'' = None" for m
    unfolding weather_fields_def
    by (rule isl_bind_exn, rule isl_bind_exn, rule isl_bind_exn) (simp add: h t)
  have k7: "isl (weather_fields (JObj kvs))" if h: "map_of kvs ''weather'' = Some (JArr [])"
    unfolding weather_fields_def by (rule isl_bind_exn, rule isl_bind_exn) (simp add: h)
  have k8: "isl (weather_fields (JObj kvs))"
    if h: "map_of kvs ''weather'' = Some (JArr (JObj w # rest))"
      and t: "map_of w ''description'' = None" for w rest
    unfolding weather_fields_def by (rule isl_bind_exn, rule isl_bind_exn) (simp add: h t)
  have k9: "isl (weather_fields (JObj kvs))"
    if h: "map_of kvs ''wind'' = Some (JObj w)" and t: "map_of w ''speed'' = None" for w
    unfolding weather_fields_def
    by (rule isl_bind_exn, rule isl_bind_exn, rule isl_bind_exn, rule isl_bind_exn)
      (simp add: h t)
  from assms show ?thesis
    by (elim disjE exE conjE) (auto intro: k1 k2 k3 k4 k5 k6 k7 k8 k9)
qed

text \<open>
  C7. Claim: when the upstream answers 200 and the body lacks one of the keys read by
  direct access, the fault leaves the weather view unhandled. The key lookup is inside
  the \<^verbatim>\<open>try\<close> block: with an API key configured and the upstream body \<open>{}\<close>, the
  \<^verbatim>\<open>KeyError\<close> for \<open>name\<close> is caught and the view returns HTTP 500 with the body
  \<open>{error: "'name'"}\<close>.
\<close>

theorem weather_missing_name_is_handled:
  "fst (get_weather (map_of [(''OPENWEATHER_API_KEY'', ''k'')])
          (always (Inr \<lparr>status_code = 200, json = Inr (JObj [])\<rparr>)) (map_of [])) =
     Inr \<lparr>http_status = 500, content_type = ''application/json'',
           body = JObj [(''error'', JStr (quoted ''name''))]\<rparr>"
  by (simp add: get_weather_def getenv_def Let_def weather_fields_def response_defs
      py_repr_name)

text \<open>
  C7, amended. When the upstream answers 200 (an API key being configured, so that the
  request is made) and the body is an object that lacks one of the directly accessed
  keys, that is \<open>name\<close>, \<open>main\<close>, \<open>weather\<close> or \<open>wind\<close> at the top level, \<open>temp\<close> or
  \<open>humidity\<close> in \<open>main\<close>, the first element of \<open>weather\<close> or \<open>description\<close> in it, or
  \<open>speed\<close> in \<open>wind\<close>, the field extraction raises an exception \<open>e\<close>, no success
  object is produced, and the fault does not leave the view: it is caught and the view
  returns HTTP 500 with the body \<open>{error: str(e)}\<close>.
\<close>

theorem weather_missing_key_is_500:
  assumes "env ''OPENWEATHER_API_KEY'' = Some api_key" and "api_key \<noteq> []"
    and "http_get (weather_url (args_get a ''city'' ''London'') api_key) = Inr response"
    and "status_code response = 200"
    and "json response = Inr (JObj kvs)"
    and "map_of kvs ''name'' = None \<or> map_of kvs ''main'' = None
       \<or> map_of kvs ''weather'' = None \<or> map_of kvs ''wind'' = None
       \<or> (\<exists>m. map_of kvs ''main'' = Some (JObj m)
              \<and> (map_of m ''temp'' = None \<or> map_of m ''humidity'' = None))
       \<or> map_of kvs ''weather'' = Some (JArr [])
       \<or> (\<exists>w rest. map_of kvs ''weather'' = Some (JArr (JObj w # rest))
              \<and> map_of w ''description'' = None)
       \<or> (\<exists>w. map_of kvs ''wind'' = Some (JObj w) \<and> map_of w ''speed'' = None)"
  shows "\<exists>e. weather_fields (JObj kvs) = Inl e
           \<and> fst (get_weather env http_get a) =
               Inr \<lparr>http_status = 500, content_type = ''application/json'',
                     body = JObj [(''error'', JStr (exn_str e))]\<rparr>"
proof (cases "weather_fields (JObj kvs)")
  case (Inl e)
  then show ?thesis using assms(1-5)
    by (simp add: get_weather_def getenv_def Let_def response_defs)
next
  case (Inr d)
  with weather_fields_missing_key [OF assms(6)] show ?thesis by simp
qed

theorem weather_missing_key_is_500_witness:
  "\<exists>e. weather_fields
          (JObj [(''name'', JStr ''Lisbon''),
                 (''main'', JObj [(''temp'', JInt 21)]),
                 (''weather'', JArr [JObj [(''description'', JStr ''clear sky'')]]),
                 (''wind'', JObj [(''speed'', JInt 3)])])
          = Inl e
      \<and> fst (get_weather (map_of [(''OPENWEATHER_API_KEY'', ''k'')])
            (always (Inr \<lparr>status_code = 200,
               json = Inr
                 (JObj [(''name'', JStr ''Lisbon''),
                        (''main'', JObj [(''temp'', JInt 21)]),
                        (''weather'', JArr [JObj [(''description'', JStr ''clear sky'')]]),
                        (''wind'', JObj [(''speed'', JInt 3)])])\<rparr>))
            (map_of [(''city'', ''Lisbon'')])) =
          Inr \<lparr>http_status = 500, content_type = ''application/json'',
                body = JObj [(''error'', JStr (exn_str e))]\<rparr>"
  using weather_missing_key_is_500 [of "map_of [(''OPENWEATHER_API_KEY'', ''k'')]" "''k''"
      "always (Inr \<lparr>status_code = 200,
               json = Inr
                 (JObj [(''name'', JStr ''Lisbon''),
                        (''main'', JObj [(''temp'', JInt 21)]),
                        (''weather'', JArr [JObj [(''description'', JStr ''clear sky'')]]),
                        (''wind'', JObj [(''speed'', JInt 3)])])\<rparr>)"
      "map_of [(''city'', ''Lisbon'')]"
      "\<lparr>status_code = 200,
               json = Inr
                 (JObj [(''name'', JStr ''Lisbon''),
                        (''main'', JObj [(''temp'', JInt 21)]),
                        (''weather'', JArr [JObj [(''description'', JStr ''clear sky'')]]),
                        (''wind'', JObj [(''speed'', JInt 3)])])\<rparr>"
      "[(''name'', JStr ''Lisbon''),
        (''main'', JObj [(''temp'', JInt 21)]),
        (''weather'', JArr [JObj [(''description'', JStr ''clear sky'')]]),
        (''wind'', JObj [(''speed'', JInt 3)])]"]
  by simp

subsection \<open>IP lookup\<close>

text \<open>
  C9. Claim: for every upstream 200 response the IP lookup view returns HTTP 200 with the
  six fields, and never an error response. \<^verbatim>\<open>data.get\<close> exists only on a dict: when the
  upstream body is the JSON array \<open>[]\<close> the first \<^verbatim>\<open>data.get('ip')\<close> raises
  \<^verbatim>\<open>AttributeError\<close> and the view returns HTTP 500.
\<close>

theorem ip_lookup_list_body:
  "fst (ip_lookup (always (Inr \<lparr>status_code = 200, json = Inr (JArr [])\<rparr>)) (map_of [])) =
     Inr \<lparr>http_status = 500, content_type = ''application/json'',
           body = JObj [(''error'',
             JStr (quoted ''list'' @ '' object has no attribute '' @ quoted ''get''))]\<rparr>"
  by (simp add: ip_lookup_def Let_def ip_fields_def response_defs)

text \<open>
  C9, amended. For every upstream 200 response whose body is a JSON object, the IP lookup
  view returns HTTP 200 with an object of exactly the six fields \<open>ip\<close>, \<open>city\<close>,
  \<open>region\<close>, \<open>country\<close>, \<open>timezone\<close>, \<open>org\<close>, each the value of the key \<open>ip\<close>, \<open>city\<close>,
  \<open>region\<close>, \<open>country_name\<close>, \<open>timezone\<close>, \<open>org\<close> of the body, or null when the body
  has no such key; a missing key never gives an error response.
\<close>

theorem ip_lookup_fields:
  assumes "http_get (ip_url (args_get a ''ip'' [])) = Inr response"
    and "status_code response = 200"
    and "json response = Inr (JObj kvs)"
  shows "fst (ip_lookup http_get a) =
     Inr \<lparr>http_status = 200, content_type = ''application/json'',
           body = JObj
             [(''ip'', case map_of kvs ''ip'' of None \<Rightarrow> JNull | Some v \<Rightarrow> v),
              (''city'', case map_of kvs ''city'' of None \<Rightarrow> JNull | Some v \<Rightarrow> v),
              (''region'', case map_of kvs ''region'' of None \<Rightarrow> JNull | Some v \<Rightarrow> v),
              (''country'', case map_of kvs ''country_name'' of None \<Rightarrow> JNull | Some v \<Rightarrow> v),
              (''timezone'', case map_of kvs ''timezone'' of None \<Rightarrow> JNull | Some v \<Rightarrow> v),
              (''org'', case map_of kvs ''org'' of None \<Rightarrow> JNull | Some v \<Rightarrow> v)]\<rparr>"
  using assms by (simp add: ip_lookup_def Let_def ip_fields_def jsonify_def)

theorem ip_lookup_fields_witness:
  "fst (ip_lookup (always (Inr \<lparr>status_code = 200,
          json = Inr (JObj [(''ip'', JStr ''8.8.8.8''), (''org'', JStr ''GOOGLE'')])\<rparr>))
        (map_of [(''ip'', ''8.8.8.8'')])) =
     Inr \<lparr>http_status = 200, content_type = ''application/json'',
           body = JObj [(''ip'', JStr ''8.8.8.8''), (''city'', JNull), (''region'', JNull),
                        (''country'', JNull), (''timezone'', JNull),
                        (''org'', JStr ''GOOGLE'')]\<rparr>"
  using ip_lookup_fields [of
      "always (Inr \<lparr>status_code = 200,
          json = Inr (JObj [(''ip'', JStr ''8.8.8.8''), (''org'', JStr ''GOOGLE'')])\<rparr>)"
      "map_of [(''ip'', ''8.8.8.8'')]"
      "\<lparr>status_code = 200,
          json = Inr (JObj [(''ip'', JStr ''8.8.8.8''), (''org'', JStr ''GOOGLE'')])\<rparr>"
      "[(''ip'', JStr ''8.8.8.8''), (''org'', JStr ''GOOGLE'')]"]
  by simp

end
